theory Spec2Isabelle
  imports
    Complex_Main
    "HOL-Library.Finite_Map"
    "HOL-Library.Char_ord"
    "HOL-Library.List_Lexorder"
begin

section \<open>Data model (package model)\<close>

text \<open>
  A \<open>time.Time\<close> is a clock reading in nanoseconds; the clock and the UUID generator
  are inputs of the operations that consult them (\<open>time.Now()\<close>, \<open>uuid.New()\<close>).
\<close>

type_synonym time = int

record Task =
  ID :: string
  Title :: string
  Description :: string
  Done :: bool
  CreatedAt :: time
  UpdatedAt :: time

record CreateTaskRequest =
  Title :: string
  Description :: string

text \<open>\<open>Done *bool\<close>: the nil pointer is \<open>None\<close>.\<close>

record UpdateTaskRequest =
  Title :: string
  Description :: string
  Done :: "bool option"

text \<open>
  Go's \<open>error\<close> interface. \<open>TaskError\<close> is the domain error struct of the model
  package; \<open>ExternalError\<close> is an error produced by a library (JSON decoder, gRPC, the
  OpenTelemetry SDK); \<open>Errorf msg e\<close> is \<open>fmt.Errorf(msg + ": %w", e)\<close>.
\<close>

datatype error =
    TaskError string
  | ExternalError string
  | Errorf string error

fun Error :: "error \<Rightarrow> string" where
  "Error (TaskError m) = m"
| "Error (ExternalError m) = m"
| "Error (Errorf m e) = m @ '': '' @ Error e"

definition ErrTaskNotFound :: error where
  "ErrTaskNotFound = TaskError ''task not found''"

definition ErrTitleRequired :: error where
  "ErrTitleRequired = TaskError ''title is required''"

text \<open>\<open>errors.Is\<close>: equality with the target, or with an error wrapped by \<open>%w\<close>.\<close>

fun errors_Is :: "error \<Rightarrow> error \<Rightarrow> bool" where
  "errors_Is (Errorf m e) target = (Errorf m e = target \<or> errors_Is e target)"
| "errors_Is e target = (e = target)"

definition Validate :: "CreateTaskRequest \<Rightarrow> error option" where
  "Validate r = (if CreateTaskRequest.Title r = [] then Some ErrTitleRequired else None)"


section \<open>The in-memory store (package repository)\<close>

text \<open>
  \<open>tasks map[string]*model.Task\<close>. Every method holds the repository's lock for its
  whole body, so a method is one atomic step on the map. A record is reachable through
  its own key only, so updating a record in place is an update of the map at that key.
  The spans the methods open carry no data of the store and are left out.
\<close>

record TaskRepository =
  tasks :: "(string, Task) fmap"

definition NewTaskRepository :: TaskRepository where
  "NewTaskRepository = \<lparr>tasks = fmempty\<rparr>"

text \<open>
  \<open>Create\<close>: \<open>uuid\<close> is the value of \<open>uuid.New().String()\<close>, \<open>now\<close> the value of
  \<open>time.Now()\<close>. The handlers, the only callers, pass the address of a local request,
  never nil.
\<close>

definition TaskRepository_Create ::
  "string \<Rightarrow> time \<Rightarrow> TaskRepository \<Rightarrow> CreateTaskRequest \<Rightarrow> (error + Task) \<times> TaskRepository" where
  "TaskRepository_Create uuid now r req =
     (let task = \<lparr>ID = uuid,
                  Task.Title = CreateTaskRequest.Title req,
                  Task.Description = CreateTaskRequest.Description req,
                  Task.Done = False,
                  CreatedAt = now,
                  UpdatedAt = now\<rparr>
      in (Inr task, r\<lparr>tasks := fmupd (ID task) task (tasks r)\<rparr>))"

definition TaskRepository_GetByID :: "TaskRepository \<Rightarrow> string \<Rightarrow> error + Task" where
  "TaskRepository_GetByID r tid =
     (case fmlookup (tasks r) tid of
        None \<Rightarrow> Inl ErrTaskNotFound
      | Some task \<Rightarrow> Inr task)"

text \<open>
  \<open>List\<close>: Go ranges over the map in an unspecified order; the model lists the records
  by key.
\<close>

definition TaskRepository_List :: "TaskRepository \<Rightarrow> error + Task list" where
  "TaskRepository_List r = Inr (map snd (sorted_list_of_fmap (tasks r)))"

definition TaskRepository_Update ::
  "time \<Rightarrow> TaskRepository \<Rightarrow> string \<Rightarrow> UpdateTaskRequest \<Rightarrow> (error + Task) \<times> TaskRepository" where
  "TaskRepository_Update now r tid req =
     (case fmlookup (tasks r) tid of
        None \<Rightarrow> (Inl ErrTaskNotFound, r)
      | Some task \<Rightarrow>
          (let task1 = (if UpdateTaskRequest.Title req \<noteq> []
                        then task\<lparr>Task.Title := UpdateTaskRequest.Title req\<rparr> else task);
               task2 = (if UpdateTaskRequest.Description req \<noteq> []
                        then task1\<lparr>Task.Description := UpdateTaskRequest.Description req\<rparr>
                        else task1);
               task3 = (case UpdateTaskRequest.Done req of
                          Some d \<Rightarrow> task2\<lparr>Task.Done := d\<rparr>
                        | None \<Rightarrow> task2);
               task4 = task3\<lparr>UpdatedAt := now\<rparr>
           in (Inr task4, r\<lparr>tasks := fmupd tid task4 (tasks r)\<rparr>)))"

definition TaskRepository_Delete :: "TaskRepository \<Rightarrow> string \<Rightarrow> error option \<times> TaskRepository" where
  "TaskRepository_Delete r tid =
     (case fmlookup (tasks r) tid of
        None \<Rightarrow> (Some ErrTaskNotFound, r)
      | Some _ \<Rightarrow> (None, r\<lparr>tasks := fmdrop tid (tasks r)\<rparr>))"

text \<open>\<open>int64(len(r.tasks))\<close>; the length of a map in memory is far below \<open>2^63\<close>.\<close>

definition Count :: "TaskRepository \<Rightarrow> int" where
  "Count r = int (fcard (fmdom (tasks r)))"

text \<open>
  A sequence of store operations. Each operation carries the readings of the UUID
  generator and of the clock that the method takes while it runs.
\<close>

datatype op =
    OpCreate string time CreateTaskRequest
  | OpUpdate time string UpdateTaskRequest
  | OpDelete string

fun apply_op :: "TaskRepository \<Rightarrow> op \<Rightarrow> TaskRepository" where
  "apply_op r (OpCreate uuid now req) = snd (TaskRepository_Create uuid now r req)"
| "apply_op r (OpUpdate now tid req) = snd (TaskRepository_Update now r tid req)"
| "apply_op r (OpDelete tid) = snd (TaskRepository_Delete r tid)"

fun run :: "TaskRepository \<Rightarrow> op list \<Rightarrow> TaskRepository" where
  "run r [] = r"
| "run r (x # xs) = run (apply_op r x) xs"

text \<open>The number of \<open>Create\<close> calls in a sequence.\<close>

fun created :: "op list \<Rightarrow> nat" where
  "created [] = 0"
| "created (OpCreate uuid now req # xs) = Suc (created xs)"
| "created (x # xs) = created xs"

text \<open>The number of \<open>Delete\<close> calls that return a nil error when the sequence runs from \<open>r\<close>.\<close>

fun deleted :: "TaskRepository \<Rightarrow> op list \<Rightarrow> nat" where
  "deleted r [] = 0"
| "deleted r (OpDelete tid # xs) =
     (case fst (TaskRepository_Delete r tid) of
        None \<Rightarrow> Suc (deleted (apply_op r (OpDelete tid)) xs)
      | Some err \<Rightarrow> deleted (apply_op r (OpDelete tid)) xs)"
| "deleted r (x # xs) = deleted (apply_op r x) xs"

text \<open>The identifiers that \<open>uuid.New()\<close> hands out along a sequence.\<close>

fun uuids :: "op list \<Rightarrow> string list" where
  "uuids [] = []"
| "uuids (OpCreate uuid now req # xs) = uuid # uuids xs"
| "uuids (x # xs) = uuids xs"


section \<open>Metric instruments (package telemetry)\<close>

text \<open>
  The attribute set of a measurement: \<open>http.method\<close>, \<open>http.route\<close>,
  \<open>http.status_code\<close>.
\<close>

record attrs =
  http_method :: string
  http_route :: string
  http_status_code :: int

text \<open>
  An instrument is what it has received: a counter the increments added to it, a
  histogram the boundaries it was created with and the values recorded, both oldest
  first. A \<open>float64\<close> duration is the real number it stands for.
\<close>

type_synonym Int64Counter = "(int \<times> attrs) list"

record Float64Histogram =
  boundaries :: "real list"
  recorded :: "(real \<times> attrs) list"

definition Add :: "Int64Counter \<Rightarrow> int \<Rightarrow> attrs \<Rightarrow> Int64Counter" where
  "Add c incr a = c @ [(incr, a)]"

definition Record :: "Float64Histogram \<Rightarrow> real \<Rightarrow> attrs \<Rightarrow> Float64Histogram" where
  "Record h v a = h\<lparr>recorded := recorded h @ [(v, a)]\<rparr>"

text \<open>
  Modelled from the spec: the explicit-bucket aggregation of the OpenTelemetry SDK,
  which is not part of the sources. A value falls into the first bucket whose upper
  boundary is not below it (the last bucket has no upper boundary); the cumulative count
  of bucket \<open>i\<close> adds up the buckets \<open>0..i\<close> of one attribute set.
\<close>

definition bucket_index :: "real list \<Rightarrow> real \<Rightarrow> nat" where
  "bucket_index bs v = length (takeWhile (\<lambda>b. b < v) bs)"

definition bucket_count :: "Float64Histogram \<Rightarrow> attrs \<Rightarrow> nat \<Rightarrow> nat" where
  "bucket_count h a i =
     length (filter (\<lambda>m. snd m = a \<and> bucket_index (boundaries h) (fst m) = i) (recorded h))"

definition cumulative_count :: "Float64Histogram \<Rightarrow> attrs \<Rightarrow> nat \<Rightarrow> nat" where
  "cumulative_count h a i = sum_list (map (bucket_count h a) [0..<Suc i])"

text \<open>
  \<open>Metrics\<close>. \<open>TasksGauge\<close> holds the values its observer has been given;
  \<open>taskCountFunc\<close> is a method value bound to the repository, so it reads the store as
  it is when called.
\<close>

record Metrics =
  RequestCounter :: Int64Counter
  RequestDuration :: Float64Histogram
  TasksGauge :: "int list"
  taskCountFunc :: "TaskRepository \<Rightarrow> int"

text \<open>
  The \<open>metric.Meter\<close> handed to \<open>NewMetrics\<close>: each constructor either fails with an
  error or yields the instrument.
\<close>

record Meter =
  Int64Counter :: "string \<Rightarrow> error option"
  Float64Histogram :: "string \<Rightarrow> real list \<Rightarrow> error option"
  Int64ObservableGauge :: "string \<Rightarrow> error option"

definition NewMetrics :: "Meter \<Rightarrow> (TaskRepository \<Rightarrow> int) \<Rightarrow> error + Metrics" where
  "NewMetrics meter f =
     (let bs = [0.005, 0.01, 0.025, 0.05, 0.1, 0.25, 0.5, 1, 2.5, 5, 10] in
      case Int64Counter meter ''http_requests_total'' of
        Some err \<Rightarrow> Inl (Errorf ''failed to create request counter'' err)
      | None \<Rightarrow>
     (case Float64Histogram meter ''http_request_duration_seconds'' bs of
        Some err \<Rightarrow> Inl (Errorf ''failed to create request duration histogram'' err)
      | None \<Rightarrow>
     (case Int64ObservableGauge meter ''tasks_total'' of
        Some err \<Rightarrow> Inl (Errorf ''failed to create tasks gauge'' err)
      | None \<Rightarrow>
          Inr \<lparr>RequestCounter = [],
               RequestDuration = \<lparr>boundaries = bs, recorded = []\<rparr>,
               TasksGauge = [],
               taskCountFunc = f\<rparr>)))"

text \<open>
  The callback registered with the gauge: \<open>o.Observe(m.taskCountFunc())\<close>. It returns
  the values it hands to the observer.
\<close>

definition TasksGauge_callback :: "Metrics \<Rightarrow> TaskRepository \<Rightarrow> int list" where
  "TasksGauge_callback m r = [taskCountFunc m r]"

text \<open>
  Modelled from the spec: one collection cycle of the SDK's periodic reader, which is
  not part of the sources. It invokes the registered callback on the store as it is then.
\<close>

definition collect :: "Metrics \<Rightarrow> TaskRepository \<Rightarrow> Metrics" where
  "collect m r = m\<lparr>TasksGauge := TasksGauge m @ TasksGauge_callback m r\<rparr>"

text \<open>
  The results of the three library calls a provider constructor makes
  (\<open>grpc.NewClient\<close>, the exporter's \<open>New\<close>, \<open>resource.Merge\<close>).
\<close>

record Dial =
  grpc_NewClient :: "error option"
  exporter_New :: "error option"
  resource_Merge :: "error option"

text \<open>A \<open>time.Duration\<close> in nanoseconds.\<close>

definition Second :: int where
  "Second = 1000000000"

definition Seconds :: "int \<Rightarrow> real" where
  "Seconds d = real_of_int d / 1000000000"

record MeterProvider =
  interval :: int

definition InitMeterProvider :: "Dial \<Rightarrow> error + MeterProvider" where
  "InitMeterProvider d =
     (case grpc_NewClient d of
        Some err \<Rightarrow> Inl (Errorf ''failed to create gRPC connection'' err)
      | None \<Rightarrow>
     (case exporter_New d of
        Some err \<Rightarrow> Inl (Errorf ''failed to create metric exporter'' err)
      | None \<Rightarrow>
     (case resource_Merge d of
        Some err \<Rightarrow> Inl (Errorf ''failed to create resource'' err)
      | None \<Rightarrow> Inr \<lparr>interval = 10 * Second\<rparr>)))"

definition InitLoggerProvider :: "Dial \<Rightarrow> error + unit" where
  "InitLoggerProvider d =
     (case grpc_NewClient d of
        Some err \<Rightarrow> Inl (Errorf ''failed to create gRPC connection'' err)
      | None \<Rightarrow>
     (case exporter_New d of
        Some err \<Rightarrow> Inl (Errorf ''failed to create log exporter'' err)
      | None \<Rightarrow>
     (case resource_Merge d of
        Some err \<Rightarrow> Inl (Errorf ''failed to create resource'' err)
      | None \<Rightarrow> Inr ())))"


section \<open>Request handlers (package handler)\<close>

text \<open>What the \<open>ResponseWriter\<close> has received: the status and the JSON payload.\<close>

datatype body =
    TaskBody Task
  | TasksBody "Task list"
  | ErrorBody string
  | NoBody

record Response =
  status :: int
  payload :: body

abbreviation StatusOK :: int where "StatusOK \<equiv> 200"
abbreviation StatusCreated :: int where "StatusCreated \<equiv> 201"
abbreviation StatusNoContent :: int where "StatusNoContent \<equiv> 204"
abbreviation StatusBadRequest :: int where "StatusBadRequest \<equiv> 400"
abbreviation StatusNotFound :: int where "StatusNotFound \<equiv> 404"
abbreviation StatusInternalServerError :: int where "StatusInternalServerError \<equiv> 500"

definition respondJSON :: "int \<Rightarrow> body \<Rightarrow> Response" where
  "respondJSON st data = \<lparr>status = st, payload = data\<rparr>"

definition respondError :: "int \<Rightarrow> string \<Rightarrow> Response" where
  "respondError st message = respondJSON st (ErrorBody message)"

text \<open>
  The handler's state: the repository and the instruments it writes to. The logger and
  the spans take no part in the response, the store or the metrics and are left out.
\<close>

record TaskHandler =
  repo :: TaskRepository
  metrics :: Metrics

text \<open>\<open>recordMetrics\<close>: \<open>now\<close> is the clock when \<open>time.Since(start)\<close> is taken.\<close>

definition recordMetrics ::
  "time \<Rightarrow> TaskHandler \<Rightarrow> string \<Rightarrow> string \<Rightarrow> int \<Rightarrow> time \<Rightarrow> TaskHandler" where
  "recordMetrics now h method route st start =
     (let duration = Seconds (now - start);
          a = \<lparr>http_method = method, http_route = route, http_status_code = st\<rparr>
      in h\<lparr>metrics := (metrics h)
             \<lparr>RequestCounter := Add (RequestCounter (metrics h)) 1 a,
              RequestDuration := Record (RequestDuration (metrics h)) duration a\<rparr>\<rparr>)"

text \<open>
  Each handler takes the clock readings it makes (\<open>start\<close> on entry, \<open>now\<close> inside the
  repository where it reads the clock, \<open>fin\<close> in \<open>recordMetrics\<close>) and returns the
  response with the handler's new state. A request body arrives as the result of
  decoding it.
\<close>

definition TaskHandler_List :: "time \<Rightarrow> time \<Rightarrow> TaskHandler \<Rightarrow> Response \<times> TaskHandler" where
  "TaskHandler_List start fin h =
     (case TaskRepository_List (repo h) of
        Inl err \<Rightarrow>
          (respondError StatusInternalServerError ''failed to list tasks'',
           recordMetrics fin h ''GET'' ''/api/v1/tasks'' StatusInternalServerError start)
      | Inr ts \<Rightarrow>
          (respondJSON StatusOK (TasksBody ts),
           recordMetrics fin h ''GET'' ''/api/v1/tasks'' StatusOK start))"

definition TaskHandler_Create ::
  "string \<Rightarrow> time \<Rightarrow> time \<Rightarrow> time \<Rightarrow> TaskHandler \<Rightarrow> error + CreateTaskRequest
     \<Rightarrow> Response \<times> TaskHandler" where
  "TaskHandler_Create uuid start now fin h decoded =
     (case decoded of
        Inl err \<Rightarrow>
          (respondError StatusBadRequest ''invalid request body'',
           recordMetrics fin h ''POST'' ''/api/v1/tasks'' StatusBadRequest start)
      | Inr req \<Rightarrow>
     (case Validate req of
        Some err \<Rightarrow>
          (respondError StatusBadRequest (Error err),
           recordMetrics fin h ''POST'' ''/api/v1/tasks'' StatusBadRequest start)
      | None \<Rightarrow>
     (case TaskRepository_Create uuid now (repo h) req of
        (Inl err, r) \<Rightarrow>
          (respondError StatusInternalServerError ''failed to create task'',
           recordMetrics fin (h\<lparr>repo := r\<rparr>) ''POST'' ''/api/v1/tasks''
             StatusInternalServerError start)
      | (Inr task, r) \<Rightarrow>
          (respondJSON StatusCreated (TaskBody task),
           recordMetrics fin (h\<lparr>repo := r\<rparr>) ''POST'' ''/api/v1/tasks'' StatusCreated start))))"

definition TaskHandler_GetByID ::
  "time \<Rightarrow> time \<Rightarrow> TaskHandler \<Rightarrow> string \<Rightarrow> Response \<times> TaskHandler" where
  "TaskHandler_GetByID start fin h tid =
     (case TaskRepository_GetByID (repo h) tid of
        Inl err \<Rightarrow>
          if errors_Is err ErrTaskNotFound
          then (respondError StatusNotFound ''task not found'',
                recordMetrics fin h ''GET'' ''/api/v1/tasks/{id}'' StatusNotFound start)
          else (respondError StatusInternalServerError ''failed to get task'',
                recordMetrics fin h ''GET'' ''/api/v1/tasks/{id}'' StatusInternalServerError start)
      | Inr task \<Rightarrow>
          (respondJSON StatusOK (TaskBody task),
           recordMetrics fin h ''GET'' ''/api/v1/tasks/{id}'' StatusOK start))"

definition TaskHandler_Update ::
  "time \<Rightarrow> time \<Rightarrow> time \<Rightarrow> TaskHandler \<Rightarrow> string \<Rightarrow> error + UpdateTaskRequest
     \<Rightarrow> Response \<times> TaskHandler" where
  "TaskHandler_Update start now fin h tid decoded =
     (case decoded of
        Inl err \<Rightarrow>
          (respondError StatusBadRequest ''invalid request body'',
           recordMetrics fin h ''PUT'' ''/api/v1/tasks/{id}'' StatusBadRequest start)
      | Inr req \<Rightarrow>
     (case TaskRepository_Update now (repo h) tid req of
        (Inl err, r) \<Rightarrow>
          if errors_Is err ErrTaskNotFound
          then (respondError StatusNotFound ''task not found'',
                recordMetrics fin (h\<lparr>repo := r\<rparr>) ''PUT'' ''/api/v1/tasks/{id}''
                  StatusNotFound start)
          else (respondError StatusInternalServerError ''failed to update task'',
                recordMetrics fin (h\<lparr>repo := r\<rparr>) ''PUT'' ''/api/v1/tasks/{id}''
                  StatusInternalServerError start)
      | (Inr task, r) \<Rightarrow>
          (respondJSON StatusOK (TaskBody task),
           recordMetrics fin (h\<lparr>repo := r\<rparr>) ''PUT'' ''/api/v1/tasks/{id}'' StatusOK start)))"

text \<open>\<open>Delete\<close> answers a success with \<open>w.WriteHeader(http.StatusNoContent)\<close> and no body.\<close>

definition TaskHandler_Delete ::
  "time \<Rightarrow> time \<Rightarrow> TaskHandler \<Rightarrow> string \<Rightarrow> Response \<times> TaskHandler" where
  "TaskHandler_Delete start fin h tid =
     (case TaskRepository_Delete (repo h) tid of
        (Some err, r) \<Rightarrow>
          if errors_Is err ErrTaskNotFound
          then (respondError StatusNotFound ''task not found'',
                recordMetrics fin (h\<lparr>repo := r\<rparr>) ''DELETE'' ''/api/v1/tasks/{id}''
                  StatusNotFound start)
          else (respondError StatusInternalServerError ''failed to delete task'',
                recordMetrics fin (h\<lparr>repo := r\<rparr>) ''DELETE'' ''/api/v1/tasks/{id}''
                  StatusInternalServerError start)
      | (None, r) \<Rightarrow>
          (\<lparr>status = StatusNoContent, payload = NoBody\<rparr>,
           recordMetrics fin (h\<lparr>repo := r\<rparr>) ''DELETE'' ''/api/v1/tasks/{id}''
             StatusNoContent start))"


section \<open>Process lifecycle (cmd/server)\<close>

text \<open>
  What \<open>main\<close> meets on its way: the result of \<open>InitTracerProvider\<close> (its file is not
  among the sources), the library results behind the other two providers, the meter,
  whether \<open>ListenAndServe\<close> fails with an error other than \<open>ErrServerClosed\<close>, whether
  SIGINT or SIGTERM arrives on \<open>quit\<close>, and the results of the shutdown calls.
\<close>

record Env =
  InitTracerProvider :: "error option"
  meter_dial :: Dial
  logger_dial :: Dial
  meter :: Meter
  ListenAndServe :: "error option"
  quit :: bool
  server_Shutdown :: "error option"
  tp_Shutdown :: "error option"
  mp_Shutdown :: "error option"
  lp_Shutdown :: "error option"

text \<open>
  The observable steps of the process. \<open>StartupLog\<close> is a line of the stdout logger made
  before telemetry is up, \<open>Log\<close> a line of the logger bridged to the logger provider,
  \<open>Serve\<close> the start of the goroutine that serves requests, \<open>Exit\<close> a call of
  \<open>os.Exit\<close>, which ends the process without running deferred calls.
\<close>

datatype event =
    StartupLog string
  | Log string
  | Serve
  | ServerShutdown
  | Cancel
  | TracerProviderShutdown
  | MeterProviderShutdown
  | LoggerProviderShutdown
  | Exit int

text \<open>The three deferred closures: shut the provider down, report a failure on stdout.\<close>

definition defer_tp :: "Env \<Rightarrow> event list" where
  "defer_tp env =
     TracerProviderShutdown #
       (case tp_Shutdown env of
          Some err \<Rightarrow> [StartupLog ''failed to shutdown tracer provider'']
        | None \<Rightarrow> [])"

definition defer_mp :: "Env \<Rightarrow> event list" where
  "defer_mp env =
     MeterProviderShutdown #
       (case mp_Shutdown env of
          Some err \<Rightarrow> [StartupLog ''failed to shutdown meter provider'']
        | None \<Rightarrow> [])"

definition defer_lp :: "Env \<Rightarrow> event list" where
  "defer_lp env =
     LoggerProviderShutdown #
       (case lp_Shutdown env of
          Some err \<Rightarrow> [StartupLog ''failed to shutdown logger provider'']
        | None \<Rightarrow> [])"

text \<open>
  \<open>main\<close> returns the events of the run. A \<open>defer\<close> pushes its closure on a stack
  (\<open>defers1\<close> .. \<open>defers4\<close>, newest first); when \<open>main\<close> returns, the stack runs from the
  top. Without a signal \<open>main\<close> stays blocked on \<open>quit\<close> and the run has no further
  event.
\<close>

definition main :: "Env \<Rightarrow> event list" where
  "main env =
     (let log0 = [StartupLog ''starting application''] in
      case InitTracerProvider env of
        Some err \<Rightarrow> log0 @ [StartupLog ''failed to initialize tracer provider'', Exit 1]
      | None \<Rightarrow>
     (let defers1 = [defer_tp env] in
      case InitMeterProvider (meter_dial env) of
        Inl err \<Rightarrow> log0 @ [StartupLog ''failed to initialize meter provider'', Exit 1]
      | Inr mp \<Rightarrow>
     (let defers2 = defer_mp env # defers1 in
      case InitLoggerProvider (logger_dial env) of
        Inl err \<Rightarrow> log0 @ [StartupLog ''failed to initialize logger provider'', Exit 1]
      | Inr lp \<Rightarrow>
     (let defers3 = defer_lp env # defers2 in
      case NewMetrics (meter env) Count of
        Inl err \<Rightarrow> log0 @ [Log ''failed to create metrics'', Exit 1]
      | Inr m \<Rightarrow>
     (let log1 = log0 @ [Serve, Log ''server listening''] in
      case ListenAndServe env of
        Some err \<Rightarrow> log1 @ [Log ''server error'', Exit 1]
      | None \<Rightarrow>
          if \<not> quit env then log1
          else
            (let defers4 = [Cancel] # defers3 in
             log1 @ [Log ''shutting down server...'', ServerShutdown]
                  @ (case server_Shutdown env of
                       Some err \<Rightarrow> [Log ''server forced to shutdown'']
                     | None \<Rightarrow> [])
                  @ [Log ''server stopped'']
                  @ concat defers4))))))"

text \<open>The provider shutdowns among the events of a run, in the order they happen.\<close>

fun is_provider_shutdown :: "event \<Rightarrow> bool" where
  "is_provider_shutdown TracerProviderShutdown = True"
| "is_provider_shutdown MeterProviderShutdown = True"
| "is_provider_shutdown LoggerProviderShutdown = True"
| "is_provider_shutdown e = False"

definition provider_shutdowns :: "event list \<Rightarrow> event list" where
  "provider_shutdowns es = filter is_provider_shutdown es"

text \<open>\<open>precedes a b es\<close>: some \<open>a\<close> happens in \<open>es\<close> and some \<open>b\<close> happens after it.\<close>

definition precedes :: "event \<Rightarrow> event \<Rightarrow> event list \<Rightarrow> bool" where
  "precedes a b es = (b \<in> set (drop 1 (dropWhile (\<lambda>e. e \<noteq> a) es)))"


section \<open>Properties: vocabulary and sample inputs\<close>

text \<open>
  \<open>records_once h out method route d\<close>: going from handler state \<open>h\<close> to the outcome
  \<open>out\<close>, the counter received exactly one more increment (of 1) and the histogram exactly
  one more value (\<open>d\<close>), both with the given method and route and with the status of the
  response.
\<close>

definition records_once ::
  "TaskHandler \<Rightarrow> Response \<times> TaskHandler \<Rightarrow> string \<Rightarrow> string \<Rightarrow> real \<Rightarrow> bool" where
  "records_once h out method route d =
     (let a = \<lparr>http_method = method, http_route = route, http_status_code = status (fst out)\<rparr>
      in RequestCounter (metrics (snd out)) = RequestCounter (metrics h) @ [(1, a)]
       \<and> recorded (RequestDuration (metrics (snd out)))
           = recorded (RequestDuration (metrics h)) @ [(d, a)])"

definition sample_task :: Task where
  "sample_task = \<lparr>ID = ''a'', Title = ''Learn Go'', Description = ''tutorial'', Done = False,
                   CreatedAt = 10, UpdatedAt = 10\<rparr>"

definition sample_repo :: TaskRepository where
  "sample_repo = \<lparr>tasks = fmupd ''a'' sample_task fmempty\<rparr>"

definition sample_ops :: "op list" where
  "sample_ops =
     [OpCreate ''a'' 1 \<lparr>CreateTaskRequest.Title = ''t1'', Description = []\<rparr>,
      OpCreate ''b'' 2 \<lparr>CreateTaskRequest.Title = ''t2'', Description = []\<rparr>,
      OpDelete ''a'',
      OpDelete ''zz'',
      OpUpdate 3 ''b'' \<lparr>UpdateTaskRequest.Title = [], Description = ''d'', Done = Some True\<rparr>]"

text \<open>A meter and library calls that never fail, and a run that receives its signal.\<close>

definition ok_meter :: Meter where
  "ok_meter = \<lparr>Int64Counter = (\<lambda>n. None), Float64Histogram = (\<lambda>n bs. None),
               Int64ObservableGauge = (\<lambda>n. None)\<rparr>"

definition ok_dial :: Dial where
  "ok_dial = \<lparr>grpc_NewClient = None, exporter_New = None, resource_Merge = None\<rparr>"

definition signalled_env :: Env where
  "signalled_env = \<lparr>InitTracerProvider = None, meter_dial = ok_dial, logger_dial = ok_dial,
     meter = ok_meter, ListenAndServe = None, quit = True, server_Shutdown = None,
     tp_Shutdown = None, mp_Shutdown = None, lp_Shutdown = None\<rparr>"

text \<open>A handler over the empty store, with the instruments as \<open>NewMetrics\<close> makes them.\<close>

definition fresh_handler :: TaskHandler where
  "fresh_handler =
     \<lparr>repo = NewTaskRepository,
      metrics = \<lparr>RequestCounter = [],
                 RequestDuration =
                   \<lparr>boundaries = [0.005, 0.01, 0.025, 0.05, 0.1, 0.25, 0.5, 1, 2.5, 5, 10],
                    recorded = []\<rparr>,
                 TasksGauge = [],
                 taskCountFunc = Count\<rparr>\<rparr>"


text \<open>A run whose meter refuses the gauge, as on a duplicate registration.\<close>

definition gauge_fails_env :: Env where
  "gauge_fails_env =
     signalled_env\<lparr>meter := ok_meter
       \<lparr>Int64ObservableGauge := (\<lambda>n. Some (ExternalError ''duplicate instrument''))\<rparr>\<rparr>"

text \<open>
  \<open>gauge_untouched h h'\<close>: from handler state \<open>h\<close> to \<open>h'\<close> the gauge has been given no
  value and its count function is the same.
\<close>

definition gauge_untouched :: "TaskHandler \<Rightarrow> TaskHandler \<Rightarrow> bool" where
  "gauge_untouched h h' =
     (TasksGauge (metrics h') = TasksGauge (metrics h)
      \<and> taskCountFunc (metrics h') = taskCountFunc (metrics h))"


section \<open>The store\<close>

lemmas repo_defs = TaskRepository_List_def TaskRepository_Create_def TaskRepository_GetByID_def
  TaskRepository_Update_def TaskRepository_Delete_def

lemmas handler_defs = TaskHandler_List_def TaskHandler_Create_def TaskHandler_GetByID_def
  TaskHandler_Update_def TaskHandler_Delete_def

lemmas resp_defs = respondJSON_def respondError_def recordMetrics_def Add_def Record_def

text \<open>
  Claim C5. \<open>GetByID\<close>, \<open>Update\<close> and \<open>Delete\<close> return the not-found error exactly when
  the store holds no record under the id, and an \<open>Update\<close> or \<open>Delete\<close> that returns it
  leaves the store as it was. (\<open>GetByID\<close> only reads the store.)
\<close>

theorem C5_not_found_iff_absent:
  "(TaskRepository_GetByID r tid = Inl ErrTaskNotFound \<longleftrightarrow> fmlookup (tasks r) tid = None)
   \<and> (fst (TaskRepository_Update now r tid req) = Inl ErrTaskNotFound
        \<longleftrightarrow> fmlookup (tasks r) tid = None)
   \<and> (fst (TaskRepository_Delete r tid) = Some ErrTaskNotFound
        \<longleftrightarrow> fmlookup (tasks r) tid = None)
   \<and> (fst (TaskRepository_Update now r tid req) = Inl ErrTaskNotFound
        \<longrightarrow> snd (TaskRepository_Update now r tid req) = r)
   \<and> (fst (TaskRepository_Delete r tid) = Some ErrTaskNotFound
        \<longrightarrow> snd (TaskRepository_Delete r tid) = r)"
  by (simp add: TaskRepository_GetByID_def TaskRepository_Update_def TaskRepository_Delete_def
        Let_def split: option.splits)

theorem C5_not_found_witness:
  "TaskRepository_GetByID NewTaskRepository ''a'' = Inl ErrTaskNotFound
   \<and> fst (TaskRepository_Update 5 NewTaskRepository ''a''
            \<lparr>UpdateTaskRequest.Title = ''t'', Description = [], Done = None\<rparr>) = Inl ErrTaskNotFound
   \<and> snd (TaskRepository_Update 5 NewTaskRepository ''a''
            \<lparr>UpdateTaskRequest.Title = ''t'', Description = [], Done = None\<rparr>) = NewTaskRepository
   \<and> fst (TaskRepository_Delete NewTaskRepository ''a'') = Some ErrTaskNotFound
   \<and> snd (TaskRepository_Delete NewTaskRepository ''a'') = NewTaskRepository"
  using C5_not_found_iff_absent [of NewTaskRepository "''a''" 5
      "\<lparr>UpdateTaskRequest.Title = ''t'', Description = [], Done = None\<rparr>"]
  by (simp add: NewTaskRepository_def)

text \<open>
  Claim C9. On a record that exists, \<open>Update\<close> succeeds and changes only what the request
  supplies: an empty \<open>Title\<close> or \<open>Description\<close> keeps the old one (so neither becomes
  empty through \<open>Update\<close>), a nil \<open>Done\<close> keeps the old one, and \<open>ID\<close> and \<open>CreatedAt\<close>
  stay as they were. The store changes at this id only.
\<close>

theorem C9_update_frame:
  assumes "fmlookup (tasks r) tid = Some old"
  shows "\<exists>new. TaskRepository_Update now r tid req = (Inr new, r\<lparr>tasks := fmupd tid new (tasks r)\<rparr>)
     \<and> Task.Title new = (if UpdateTaskRequest.Title req = [] then Task.Title old
                          else UpdateTaskRequest.Title req)
     \<and> Task.Description new = (if UpdateTaskRequest.Description req = [] then Task.Description old
                          else UpdateTaskRequest.Description req)
     \<and> Task.Done new = (case UpdateTaskRequest.Done req of None \<Rightarrow> Task.Done old | Some d \<Rightarrow> d)
     \<and> ID new = ID old \<and> CreatedAt new = CreatedAt old
     \<and> (Task.Title new = [] \<longrightarrow> Task.Title old = [])
     \<and> (Task.Description new = [] \<longrightarrow> Task.Description old = [])"
  using assms
  by (simp add: TaskRepository_Update_def Let_def split: option.splits)

theorem C9_update_frame_witness:
  "fmlookup (tasks sample_repo) ''a'' = Some sample_task
   \<and> (\<exists>new. fst (TaskRepository_Update 20 sample_repo ''a''
                 \<lparr>UpdateTaskRequest.Title = [], Description = ''d'', Done = None\<rparr>) = Inr new
          \<and> Task.Title new = ''Learn Go'' \<and> Task.Description new = ''d'' \<and> \<not> Task.Done new
          \<and> ID new = ''a'' \<and> CreatedAt new = 10)"
proof -
  have h: "fmlookup (tasks sample_repo) ''a'' = Some sample_task"
    by (simp add: sample_repo_def)
  show ?thesis
    using h C9_update_frame [OF h, of 20
        "\<lparr>UpdateTaskRequest.Title = [], Description = ''d'', Done = None\<rparr>"]
    by (auto simp: sample_task_def)
qed

subsection \<open>Count along a sequence of operations\<close>

lemma Count_Create:
  "uuid |\<notin>| fmdom (tasks r) \<Longrightarrow> Count (snd (TaskRepository_Create uuid now r req)) = Count r + 1"
  by (simp add: TaskRepository_Create_def Count_def Let_def fcard_finsert_if)

lemma dom_Create:
  "fmdom (tasks (snd (TaskRepository_Create uuid now r req))) = finsert uuid (fmdom (tasks r))"
  by (simp add: TaskRepository_Create_def Let_def)

lemma dom_Update:
  "fmdom (tasks (snd (TaskRepository_Update now r tid req))) = fmdom (tasks r)"
  by (auto simp add: TaskRepository_Update_def Let_def fmdom_notI split: option.splits intro: fmdomI)

lemma dom_Delete:
  "fmdom (tasks (snd (TaskRepository_Delete r tid))) = fmdom (tasks r) |-| {|tid|}"
  by (auto simp add: TaskRepository_Delete_def fmdom_notI split: option.splits)

lemma Count_Delete:
  "Count (snd (TaskRepository_Delete r tid)) =
     (case fst (TaskRepository_Delete r tid) of None \<Rightarrow> Count r - 1 | Some e \<Rightarrow> Count r)"
proof (cases "fmlookup (tasks r) tid")
  case None
  then show ?thesis by (simp add: TaskRepository_Delete_def)
next
  case (Some t)
  then have mem: "tid |\<in>| fmdom (tasks r)" by (simp add: fmdomI)
  then have "fcard (fmdom (tasks r)) = Suc (fcard (fmdom (tasks r) |-| {|tid|}))"
    by (metis fcard_finsert finsert_absorb)
  with Some show ?thesis
    by (simp add: TaskRepository_Delete_def Count_def)
qed

text \<open>
  The invariant, from any store: as long as the generator hands out identifiers that are
  pairwise different and not in the store, every \<open>Create\<close> adds one record and every
  \<open>Delete\<close> that succeeds removes one.
\<close>

lemma Count_run:
  "distinct (uuids xs) \<Longrightarrow> (\<forall>u \<in> set (uuids xs). u |\<notin>| fmdom (tasks r)) \<Longrightarrow>
   Count (run r xs) = Count r + int (created xs) - int (deleted r xs)"
proof (induction xs arbitrary: r)
  case Nil
  then show ?case by simp
next
  case (Cons x xs)
  show ?case
  proof (cases x)
    case (OpCreate uuid now req)
    let ?r' = "snd (TaskRepository_Create uuid now r req)"
    from Cons.prems OpCreate have fresh: "uuid |\<notin>| fmdom (tasks r)" by simp
    from Cons.prems OpCreate have d: "distinct (uuids xs)" by simp
    from Cons.prems OpCreate have "\<forall>u \<in> set (uuids xs). u |\<notin>| fmdom (tasks ?r')"
      by (auto simp: dom_Create)
    from Cons.IH [OF d this]
    have "Count (run ?r' xs) = Count ?r' + int (created xs) - int (deleted ?r' xs)" .
    with fresh OpCreate show ?thesis by (simp add: Count_Create)
  next
    case (OpUpdate now tid req)
    let ?r' = "snd (TaskRepository_Update now r tid req)"
    from Cons.prems OpUpdate have d: "distinct (uuids xs)" by simp
    from Cons.prems OpUpdate have "\<forall>u \<in> set (uuids xs). u |\<notin>| fmdom (tasks ?r')"
      by (simp add: dom_Update)
    from Cons.IH [OF d this]
    have "Count (run ?r' xs) = Count ?r' + int (created xs) - int (deleted ?r' xs)" .
    moreover have "Count ?r' = Count r" by (simp add: Count_def dom_Update)
    ultimately show ?thesis using OpUpdate by simp
  next
    case (OpDelete tid)
    let ?r' = "snd (TaskRepository_Delete r tid)"
    from Cons.prems OpDelete have d: "distinct (uuids xs)" by simp
    from Cons.prems OpDelete have "\<forall>u \<in> set (uuids xs). u |\<notin>| fmdom (tasks ?r')"
      by (simp add: dom_Delete)
    from Cons.IH [OF d this]
    have "Count (run ?r' xs) = Count ?r' + int (created xs) - int (deleted ?r' xs)" .
    then show ?thesis using OpDelete by (simp add: Count_Delete split: option.splits)
  qed
qed

lemma uuids_take_subset: "set (uuids (take m xs)) \<subseteq> set (uuids xs)"
  by (induction xs arbitrary: m rule: uuids.induct) (auto simp: take_Cons split: nat.splits)

lemma uuids_take: "distinct (uuids xs) \<Longrightarrow> distinct (uuids (take n xs))"
proof (induction xs arbitrary: n)
  case Nil
  show ?case by simp
next
  case (Cons x xs)
  show ?case
  proof (cases n)
    case 0
    then show ?thesis by simp
  next
    case (Suc m)
    with Cons uuids_take_subset [of m xs] show ?thesis
      by (cases x) auto
  qed
qed

text \<open>
  Claim C2. Run any sequence of \<open>Create\<close>, \<open>Update\<close> and \<open>Delete\<close> from the empty
  repository, with the UUID generator never repeating an identifier. After every prefix
  of the sequence, \<open>Count\<close> is the number of records created so far minus the number of
  deletes that succeeded so far.
\<close>

theorem C2_count_is_created_minus_deleted:
  assumes "distinct (uuids xs)"
  shows "Count (run NewTaskRepository (take n xs)) =
           int (created (take n xs)) - int (deleted NewTaskRepository (take n xs))"
  using Count_run [OF uuids_take [OF assms], of n NewTaskRepository]
  by (simp add: NewTaskRepository_def Count_def)

theorem C2_count_witness:
  "distinct (uuids sample_ops)
   \<and> Count (run NewTaskRepository (take 5 sample_ops)) = 1
   \<and> created (take 5 sample_ops) = 2
   \<and> deleted NewTaskRepository (take 5 sample_ops) = 1"
proof -
  have d: "distinct (uuids sample_ops)"
    by (simp add: sample_ops_def)
  have c: "created (take 5 sample_ops) = 2"
    by (simp add: sample_ops_def)
  have e: "deleted NewTaskRepository (take 5 sample_ops) = 1"
    by (simp add: sample_ops_def NewTaskRepository_def repo_defs Let_def)
  show ?thesis
    using d c e C2_count_is_created_minus_deleted [OF d, of 5] by simp
qed


section \<open>The handlers\<close>

text \<open>
  Claim C3. Each of \<open>List\<close>, \<open>Create\<close>, \<open>GetByID\<close>, \<open>Update\<close> and \<open>Delete\<close>, whatever
  the request and the store, adds exactly one increment to the request counter and
  exactly one duration to the histogram, both carrying the handler's HTTP method, its
  route template (a constant, whatever the id in the path) and the status code of the
  response it wrote.
\<close>

theorem C3_one_counter_one_duration:
  "records_once h (TaskHandler_List start fin h) ''GET'' ''/api/v1/tasks'' (Seconds (fin - start))
 \<and> records_once h (TaskHandler_Create uuid start now fin h creq) ''POST'' ''/api/v1/tasks''
      (Seconds (fin - start))
 \<and> records_once h (TaskHandler_GetByID start fin h tid) ''GET'' ''/api/v1/tasks/{id}''
      (Seconds (fin - start))
 \<and> records_once h (TaskHandler_Update start now fin h tid ureq) ''PUT'' ''/api/v1/tasks/{id}''
      (Seconds (fin - start))
 \<and> records_once h (TaskHandler_Delete start fin h tid) ''DELETE'' ''/api/v1/tasks/{id}''
      (Seconds (fin - start))"
  by (simp add: records_once_def handler_defs repo_defs resp_defs Let_def
        split: sum.splits option.splits prod.splits)

text \<open>
  Claim C10. The repository's \<open>Create\<close> and \<open>List\<close> return a nil error on every input
  and store, so the \<open>List\<close> handler always answers 200 and the \<open>Create\<close> handler 201 or
  400: their 500 branches are never taken.
\<close>

theorem C10_create_list_never_fail:
  "(\<exists>task. fst (TaskRepository_Create uuid now r req) = Inr task)
 \<and> (\<exists>ts. TaskRepository_List r = Inr ts)
 \<and> status (fst (TaskHandler_List start fin h)) = StatusOK
 \<and> (status (fst (TaskHandler_Create uuid start now fin h decoded)) = StatusCreated
    \<or> status (fst (TaskHandler_Create uuid start now fin h decoded)) = StatusBadRequest)"
  by (simp add: handler_defs repo_defs resp_defs Let_def
        split: sum.splits option.splits prod.splits)

text \<open>
  Claim C6. A create request with a title is answered 201 with a task that carries the
  identifier just generated, \<open>Done = False\<close> and \<open>CreatedAt = UpdatedAt\<close>; a get on that
  id answers 200 with the same task; an update with \<open>done = true\<close>, made when the clock
  has advanced, answers 200 with \<open>Done = True\<close> and \<open>UpdatedAt\<close> after \<open>CreatedAt\<close>; a
  delete answers 204; a get after the delete answers 404.
\<close>

theorem C6_end_to_end:
  assumes "CreateTaskRequest.Title creq \<noteq> []"
    and "UpdateTaskRequest.Done ureq = Some True"
    and "now1 < now2"
  shows "\<exists>task task' h1 h2 h3 h4.
      TaskHandler_Create uuid s1 now1 f1 h0 (Inr creq)
        = (\<lparr>status = StatusCreated, payload = TaskBody task\<rparr>, h1)
    \<and> ID task = uuid \<and> \<not> Task.Done task \<and> CreatedAt task = UpdatedAt task
    \<and> TaskHandler_GetByID s2 f2 h1 (ID task)
        = (\<lparr>status = StatusOK, payload = TaskBody task\<rparr>, h2)
    \<and> TaskHandler_Update s3 now2 f3 h2 (ID task) (Inr ureq)
        = (\<lparr>status = StatusOK, payload = TaskBody task'\<rparr>, h3)
    \<and> Task.Done task' \<and> CreatedAt task' < UpdatedAt task'
    \<and> ID task' = ID task \<and> CreatedAt task' = CreatedAt task
    \<and> TaskHandler_Delete s4 f4 h3 (ID task)
        = (\<lparr>status = StatusNoContent, payload = NoBody\<rparr>, h4)
    \<and> status (fst (TaskHandler_GetByID s5 f5 h4 (ID task))) = StatusNotFound"
  using assms
  by (simp add: handler_defs repo_defs resp_defs Let_def Validate_def ErrTaskNotFound_def
        split: sum.splits option.splits prod.splits)

theorem C6_end_to_end_witness:
  "CreateTaskRequest.Title \<lparr>CreateTaskRequest.Title = ''Learn Go'', Description = ''tutorial''\<rparr> \<noteq> []
   \<and> UpdateTaskRequest.Done \<lparr>UpdateTaskRequest.Title = [], Description = [], Done = Some True\<rparr>
       = Some True
   \<and> (10::int) < 20
   \<and> (\<exists>task task' h1 h2 h3 h4.
        TaskHandler_Create ''a'' 9 10 11 fresh_handler
            (Inr \<lparr>CreateTaskRequest.Title = ''Learn Go'', Description = ''tutorial''\<rparr>)
          = (\<lparr>status = 201, payload = TaskBody task\<rparr>, h1)
      \<and> task = sample_task
      \<and> TaskHandler_GetByID 12 13 h1 ''a'' = (\<lparr>status = 200, payload = TaskBody task\<rparr>, h2)
      \<and> TaskHandler_Update 19 20 21 h2 ''a''
            (Inr \<lparr>UpdateTaskRequest.Title = [], Description = [], Done = Some True\<rparr>)
          = (\<lparr>status = 200, payload = TaskBody task'\<rparr>, h3)
      \<and> task' = sample_task\<lparr>Task.Done := True, UpdatedAt := 20\<rparr>
      \<and> TaskHandler_Delete 22 23 h3 ''a'' = (\<lparr>status = 204, payload = NoBody\<rparr>, h4)
      \<and> status (fst (TaskHandler_GetByID 24 25 h4 ''a'')) = 404)"
  using C6_end_to_end [of "\<lparr>CreateTaskRequest.Title = ''Learn Go'', Description = ''tutorial''\<rparr>"
      "\<lparr>UpdateTaskRequest.Title = [], Description = [], Done = Some True\<rparr>" 10 20
      "''a''" 9 11 fresh_handler 12 13 19 21 22 23 24 25]
  by (simp add: handler_defs repo_defs resp_defs Let_def Validate_def ErrTaskNotFound_def
        fresh_handler_def NewTaskRepository_def sample_task_def)


section \<open>The instruments\<close>

lemma bucket_count_Record:
  "bucket_count (Record h v a) a' i =
     bucket_count h a' i + (if a = a' \<and> bucket_index (boundaries h) v = i then 1 else 0)"
  by (simp add: bucket_count_def Record_def)

lemma cumulative_count_0: "cumulative_count h a 0 = bucket_count h a 0"
  by (simp add: cumulative_count_def)

lemma cumulative_count_Suc:
  "cumulative_count h a (Suc i) = cumulative_count h a i + bucket_count h a (Suc i)"
  by (simp add: cumulative_count_def)

lemma cumulative_count_Record:
  "cumulative_count (Record h v a) a' i =
     cumulative_count h a' i + (if a = a' \<and> bucket_index (boundaries h) v \<le> i then 1 else 0)"
proof (induction i)
  case 0
  show ?case by (simp add: cumulative_count_0 bucket_count_Record)
next
  case (Suc i)
  show ?case
    unfolding cumulative_count_Suc Suc.IH bucket_count_Record
    by (auto simp: le_Suc_eq)
qed

text \<open>
  Claim C4. \<open>NewMetrics\<close> creates the duration histogram with the boundaries
  0.005, 0.01, 0.025, 0.05, 0.1, 0.25, 0.5, 1, 2.5, 5, 10; neither \<open>recordMetrics\<close> nor
  \<open>Record\<close> changes them; recording a value never lowers a cumulative bucket count; and
  with these boundaries a value of 0.2 raises the cumulative count of the 0.25 bucket
  (index 5) by one and leaves that of the 0.1 bucket as it was.
\<close>

theorem C4_histogram_buckets:
  "(NewMetrics mt f = Inr m \<longrightarrow>
       boundaries (RequestDuration m) = [0.005, 0.01, 0.025, 0.05, 0.1, 0.25, 0.5, 1, 2.5, 5, 10])
 \<and> boundaries (RequestDuration (metrics (recordMetrics now h method route st start)))
       = boundaries (RequestDuration (metrics h))
 \<and> boundaries (Record hist v a) = boundaries hist
 \<and> cumulative_count hist a' i \<le> cumulative_count (Record hist v a) a' i
 \<and> (boundaries hist = [0.005, 0.01, 0.025, 0.05, 0.1, 0.25, 0.5, 1, 2.5, 5, 10] \<longrightarrow>
       boundaries hist ! 5 = 0.25
     \<and> cumulative_count (Record hist 0.2 a) a 5 = cumulative_count hist a 5 + 1
     \<and> cumulative_count (Record hist 0.2 a) a 4 = cumulative_count hist a 4)"
proof -
  have 1: "NewMetrics mt f = Inr m \<longrightarrow>
       boundaries (RequestDuration m) = [0.005, 0.01, 0.025, 0.05, 0.1, 0.25, 0.5, 1, 2.5, 5, 10]"
    by (auto simp: NewMetrics_def Let_def split: option.splits)
  have 2: "boundaries (RequestDuration (metrics (recordMetrics now h method route st start)))
       = boundaries (RequestDuration (metrics h))"
    by (simp add: resp_defs Let_def)
  have 3: "boundaries (Record hist v a) = boundaries hist"
    by (simp add: Record_def)
  have 4: "cumulative_count hist a' i \<le> cumulative_count (Record hist v a) a' i"
    by (simp add: cumulative_count_Record)
  have 6: "boundaries hist = [0.005, 0.01, 0.025, 0.05, 0.1, 0.25, 0.5, 1, 2.5, 5, 10] \<longrightarrow>
       boundaries hist ! 5 = 0.25
     \<and> cumulative_count (Record hist 0.2 a) a 5 = cumulative_count hist a 5 + 1
     \<and> cumulative_count (Record hist 0.2 a) a 4 = cumulative_count hist a 4"
    by (simp add: cumulative_count_Record bucket_index_def)
  from 1 2 3 4 6 show ?thesis by blast
qed


theorem C4_histogram_buckets_witness:
  "NewMetrics ok_meter Count = Inr (metrics fresh_handler)
 \<and> boundaries (RequestDuration (metrics fresh_handler))
      = [0.005, 0.01, 0.025, 0.05, 0.1, 0.25, 0.5, 1, 2.5, 5, 10]
 \<and> cumulative_count (RequestDuration (metrics fresh_handler))
      \<lparr>http_method = ''GET'', http_route = ''/api/v1/tasks'', http_status_code = 200\<rparr> 5 = 0
 \<and> cumulative_count
      (Record (RequestDuration (metrics fresh_handler)) 0.2
         \<lparr>http_method = ''GET'', http_route = ''/api/v1/tasks'', http_status_code = 200\<rparr>)
      \<lparr>http_method = ''GET'', http_route = ''/api/v1/tasks'', http_status_code = 200\<rparr> 5 = 1
 \<and> RequestDuration (metrics (snd (TaskHandler_List 0 200000000 fresh_handler)))
      = Record (RequestDuration (metrics fresh_handler)) 0.2
         \<lparr>http_method = ''GET'', http_route = ''/api/v1/tasks'', http_status_code = 200\<rparr>"
proof -
  have n: "NewMetrics ok_meter Count = Inr (metrics fresh_handler)"
    by (simp add: NewMetrics_def ok_meter_def fresh_handler_def Let_def)
  have b: "boundaries (RequestDuration (metrics fresh_handler))
      = [0.005, 0.01, 0.025, 0.05, 0.1, 0.25, 0.5, 1, 2.5, 5, 10]"
    by (simp add: fresh_handler_def)
  have z: "cumulative_count (RequestDuration (metrics fresh_handler))
      \<lparr>http_method = ''GET'', http_route = ''/api/v1/tasks'', http_status_code = 200\<rparr> 5 = 0"
    by (simp add: fresh_handler_def cumulative_count_def bucket_count_def)
  have l: "RequestDuration (metrics (snd (TaskHandler_List 0 200000000 fresh_handler)))
      = Record (RequestDuration (metrics fresh_handler)) 0.2
         \<lparr>http_method = ''GET'', http_route = ''/api/v1/tasks'', http_status_code = 200\<rparr>"
    by (simp add: TaskHandler_List_def TaskRepository_List_def recordMetrics_def Let_def
          Seconds_def)
  show ?thesis
    using n b z l
      C4_histogram_buckets [where mt = ok_meter and f = Count and m = "metrics fresh_handler"
        and hist = "RequestDuration (metrics fresh_handler)"
        and a = "\<lparr>http_method = ''GET'', http_route = ''/api/v1/tasks'', http_status_code = 200\<rparr>"]
    by simp
qed

subsection \<open>Instrument construction\<close>

lemma NewMetrics_fails:
  assumes "Int64Counter mt ''http_requests_total'' \<noteq> None
         \<or> Float64Histogram mt ''http_request_duration_seconds''
              [0.005, 0.01, 0.025, 0.05, 0.1, 0.25, 0.5, 1, 2.5, 5, 10] \<noteq> None
         \<or> Int64ObservableGauge mt ''tasks_total'' \<noteq> None"
  shows "\<exists>err. NewMetrics mt f = Inl err"
  using assms by (auto simp: NewMetrics_def Let_def split: option.splits)

lemma main_NewMetrics_fails:
  assumes "NewMetrics (meter env) Count = Inl err"
  shows "last (main env) = Exit 1 \<and> Serve \<notin> set (main env)"
  using assms by (simp add: main_def Let_def split: option.splits sum.splits)

text \<open>
  Claim C7. If the meter fails to construct the request counter, the duration histogram
  or the tasks gauge, \<open>NewMetrics\<close> returns an error and no \<open>Metrics\<close>, and the run of
  \<open>main\<close> ends in \<open>os.Exit(1)\<close> without ever starting to serve.
\<close>

theorem C7_instrument_failure_is_fatal:
  assumes "Int64Counter (meter env) ''http_requests_total'' \<noteq> None
         \<or> Float64Histogram (meter env) ''http_request_duration_seconds''
              [0.005, 0.01, 0.025, 0.05, 0.1, 0.25, 0.5, 1, 2.5, 5, 10] \<noteq> None
         \<or> Int64ObservableGauge (meter env) ''tasks_total'' \<noteq> None"
  shows "(\<exists>err. NewMetrics (meter env) f = Inl err)
       \<and> last (main env) = Exit 1 \<and> Serve \<notin> set (main env)"
proof -
  from NewMetrics_fails [OF assms] obtain err where "NewMetrics (meter env) Count = Inl err"
    by blast
  from main_NewMetrics_fails [OF this] NewMetrics_fails [OF assms, of f]
  show ?thesis by blast
qed


theorem C7_instrument_failure_witness:
  "Int64ObservableGauge (meter gauge_fails_env) ''tasks_total'' \<noteq> None
 \<and> NewMetrics (meter gauge_fails_env) Count
      = Inl (Errorf ''failed to create tasks gauge'' (ExternalError ''duplicate instrument''))
 \<and> main gauge_fails_env
      = [StartupLog ''starting application'', Log ''failed to create metrics'', Exit 1]
 \<and> last (main gauge_fails_env) = Exit 1 \<and> Serve \<notin> set (main gauge_fails_env)"
proof -
  have g: "Int64ObservableGauge (meter gauge_fails_env) ''tasks_total'' \<noteq> None"
    by (simp add: gauge_fails_env_def)
  have n: "NewMetrics (meter gauge_fails_env) Count
      = Inl (Errorf ''failed to create tasks gauge'' (ExternalError ''duplicate instrument''))"
    by (simp add: gauge_fails_env_def NewMetrics_def ok_meter_def Let_def)
  have t: "InitTracerProvider gauge_fails_env = None"
    by (simp add: gauge_fails_env_def signalled_env_def)
  have p: "InitMeterProvider (meter_dial gauge_fails_env) = Inr \<lparr>interval = 10 * Second\<rparr>"
    by (simp add: gauge_fails_env_def signalled_env_def ok_dial_def InitMeterProvider_def)
  have l: "InitLoggerProvider (logger_dial gauge_fails_env) = Inr ()"
    by (simp add: gauge_fails_env_def signalled_env_def ok_dial_def InitLoggerProvider_def)
  have m: "main gauge_fails_env
      = [StartupLog ''starting application'', Log ''failed to create metrics'', Exit 1]"
    by (simp add: main_def t p l n Let_def)
  show ?thesis
    using g n m C7_instrument_failure_is_fatal [of gauge_fails_env Count] by simp
qed

text \<open>
  Claim C8. No handler gives the tasks gauge a value or replaces its count function.
  With \<open>Count\<close> as the count function, as \<open>main\<close> passes it, the gauge starts without a
  value and its callback observes exactly \<open>Count\<close> of the store as it is at the call; a
  collection cycle appends exactly what the callback observes; and the meter provider's
  periodic reader is built with an interval of 10 seconds.
\<close>

theorem C8_gauge_pull_only:
  "gauge_untouched h (snd (TaskHandler_List start fin h))
 \<and> gauge_untouched h (snd (TaskHandler_Create uuid start now fin h creq))
 \<and> gauge_untouched h (snd (TaskHandler_GetByID start fin h tid))
 \<and> gauge_untouched h (snd (TaskHandler_Update start now fin h tid ureq))
 \<and> gauge_untouched h (snd (TaskHandler_Delete start fin h tid))
 \<and> (NewMetrics mt Count = Inr m \<longrightarrow>
       TasksGauge m = [] \<and> taskCountFunc m = Count \<and> TasksGauge_callback m r = [Count r])
 \<and> TasksGauge (collect m' r) = TasksGauge m' @ [taskCountFunc m' r]
 \<and> (InitMeterProvider d = Inr mp \<longrightarrow> interval mp = 10 * Second)"
proof -
  have hs: "gauge_untouched h (snd (TaskHandler_List start fin h))
 \<and> gauge_untouched h (snd (TaskHandler_Create uuid start now fin h creq))
 \<and> gauge_untouched h (snd (TaskHandler_GetByID start fin h tid))
 \<and> gauge_untouched h (snd (TaskHandler_Update start now fin h tid ureq))
 \<and> gauge_untouched h (snd (TaskHandler_Delete start fin h tid))"
    by (simp add: gauge_untouched_def handler_defs repo_defs resp_defs Let_def
          split: sum.splits option.splits prod.splits)
  have nm: "NewMetrics mt Count = Inr m \<longrightarrow>
       TasksGauge m = [] \<and> taskCountFunc m = Count \<and> TasksGauge_callback m r = [Count r]"
    by (auto simp: NewMetrics_def TasksGauge_callback_def Let_def split: option.splits)
  have co: "TasksGauge (collect m' r) = TasksGauge m' @ [taskCountFunc m' r]"
    by (simp add: collect_def TasksGauge_callback_def)
  have iv: "InitMeterProvider d = Inr mp \<longrightarrow> interval mp = 10 * Second"
    by (auto simp: InitMeterProvider_def split: option.splits)
  from hs nm co iv show ?thesis by blast
qed

theorem C8_gauge_pull_only_witness:
  "NewMetrics ok_meter Count = Inr (metrics fresh_handler)
 \<and> TasksGauge_callback (metrics fresh_handler) sample_repo = [1]
 \<and> InitMeterProvider ok_dial = Inr \<lparr>interval = 10000000000\<rparr>
 \<and> TasksGauge (collect (metrics (snd (TaskHandler_Create ''a'' 9 10 11 fresh_handler
        (Inr \<lparr>CreateTaskRequest.Title = ''Learn Go'', Description = ''tutorial''\<rparr>))))
      sample_repo) = [1]"
proof -
  have n: "NewMetrics ok_meter Count = Inr (metrics fresh_handler)"
    by (simp add: NewMetrics_def ok_meter_def fresh_handler_def Let_def)
  have i: "InitMeterProvider ok_dial = Inr \<lparr>interval = 10000000000\<rparr>"
    by (simp add: InitMeterProvider_def ok_dial_def Second_def)
  have c: "Count sample_repo = 1"
    by (simp add: Count_def sample_repo_def fcard_finsert_if)
  have t: "TasksGauge (metrics fresh_handler) = []" "taskCountFunc (metrics fresh_handler) = Count"
    by (simp_all add: fresh_handler_def)
  show ?thesis
    using n i c t
      C8_gauge_pull_only [where mt = ok_meter and m = "metrics fresh_handler" and r = sample_repo
        and d = ok_dial and mp = "\<lparr>interval = 10000000000\<rparr>" and h = fresh_handler
        and uuid = "''a''" and start = 9 and now = 10 and fin = 11
        and creq = "Inr \<lparr>CreateTaskRequest.Title = ''Learn Go'', Description = ''tutorial''\<rparr>"
        and m' = "metrics (snd (TaskHandler_Create ''a'' 9 10 11 fresh_handler
        (Inr \<lparr>CreateTaskRequest.Title = ''Learn Go'', Description = ''tutorial''\<rparr>)))"]
    by (simp add: gauge_untouched_def)
qed


section \<open>Shutdown order\<close>

lemma provider_shutdowns_defers:
  "provider_shutdowns (defer_lp env @ defer_mp env @ defer_tp env)
     = [LoggerProviderShutdown, MeterProviderShutdown, TracerProviderShutdown]"
  by (simp add: provider_shutdowns_def defer_tp_def defer_mp_def defer_lp_def
        split: option.splits)

lemma provider_shutdowns_append:
  "provider_shutdowns (xs @ ys) = provider_shutdowns xs @ provider_shutdowns ys"
  by (simp add: provider_shutdowns_def)

lemma provider_shutdowns_main:
  "provider_shutdowns (main env) = []
 \<or> provider_shutdowns (main env)
      = [LoggerProviderShutdown, MeterProviderShutdown, TracerProviderShutdown]"
proof (cases "InitTracerProvider env")
  case (Some err)
  then show ?thesis by (simp add: main_def provider_shutdowns_def)
next
  case tp: None
  show ?thesis
  proof (cases "InitMeterProvider (meter_dial env)")
    case (Inl err)
    with tp show ?thesis by (simp add: main_def provider_shutdowns_def)
  next
    case mp: (Inr p)
    show ?thesis
    proof (cases "InitLoggerProvider (logger_dial env)")
      case (Inl err)
      with tp mp show ?thesis by (simp add: main_def provider_shutdowns_def)
    next
      case lp: (Inr u)
      show ?thesis
      proof (cases "NewMetrics (meter env) Count")
        case (Inl err)
        with tp mp lp show ?thesis by (simp add: main_def provider_shutdowns_def)
      next
        case nm: (Inr m)
        show ?thesis
        proof (cases "ListenAndServe env")
          case (Some err)
          with tp mp lp nm show ?thesis by (simp add: main_def provider_shutdowns_def)
        next
          case ls: None
          show ?thesis
          proof (cases "quit env")
            case False
            with tp mp lp nm ls show ?thesis by (simp add: main_def provider_shutdowns_def)
          next
            case True
            define pre where "pre =
                [StartupLog ''starting application'', Serve, Log ''server listening'',
                 Log ''shutting down server...'', ServerShutdown]
                @ (case server_Shutdown env of
                     Some err \<Rightarrow> [Log ''server forced to shutdown'']
                   | None \<Rightarrow> [])
                @ [Log ''server stopped'', Cancel]"
            have a: "main env = pre @ (defer_lp env @ defer_mp env @ defer_tp env)"
              using tp mp lp nm ls True by (simp add: main_def pre_def)
            have b: "provider_shutdowns pre = []"
              by (simp add: pre_def provider_shutdowns_def split: option.splits)
            have "provider_shutdowns (main env)
                = provider_shutdowns pre
                  @ provider_shutdowns (defer_lp env @ defer_mp env @ defer_tp env)"
              unfolding a by (rule provider_shutdowns_append)
            then show ?thesis
              by (simp add: b provider_shutdowns_defers)
          qed
        qed
      qed
    qed
  qed
qed

text \<open>
  Claim C1, as the code has it. In a run in which any telemetry provider is shut down,
  all three are, in the reverse order of their deferral: the logger provider first, the
  meter provider second, the tracer provider last.
\<close>

theorem C1_shutdown_reverse_of_init:
  assumes "LoggerProviderShutdown \<in> set (main env) \<or> MeterProviderShutdown \<in> set (main env)
         \<or> TracerProviderShutdown \<in> set (main env)"
  shows "provider_shutdowns (main env)
           = [LoggerProviderShutdown, MeterProviderShutdown, TracerProviderShutdown]"
proof -
  from assms obtain e where "e \<in> set (main env)" "is_provider_shutdown e"
    by auto
  then have "provider_shutdowns (main env) \<noteq> []"
    by (auto simp: provider_shutdowns_def filter_empty_conv)
  with provider_shutdowns_main [of env] show ?thesis by blast
qed

lemma main_signalled_env:
  "main signalled_env =
     [StartupLog ''starting application'', Serve, Log ''server listening'',
      Log ''shutting down server...'', ServerShutdown, Log ''server stopped'',
      Cancel, LoggerProviderShutdown, MeterProviderShutdown, TracerProviderShutdown]"
proof -
  have t: "InitTracerProvider signalled_env = None"
    by (simp add: signalled_env_def)
  have p: "InitMeterProvider (meter_dial signalled_env) = Inr \<lparr>interval = 10 * Second\<rparr>"
    by (simp add: signalled_env_def ok_dial_def InitMeterProvider_def)
  have l: "InitLoggerProvider (logger_dial signalled_env) = Inr ()"
    by (simp add: signalled_env_def ok_dial_def InitLoggerProvider_def)
  have n: "NewMetrics (meter signalled_env) Count = Inr (metrics fresh_handler)"
    by (simp add: signalled_env_def NewMetrics_def ok_meter_def fresh_handler_def Let_def)
  have d: "defer_tp signalled_env = [TracerProviderShutdown]"
    "defer_mp signalled_env = [MeterProviderShutdown]"
    "defer_lp signalled_env = [LoggerProviderShutdown]"
    by (simp_all add: signalled_env_def defer_tp_def defer_mp_def defer_lp_def)
  have o: "ListenAndServe signalled_env = None" "quit signalled_env"
    "server_Shutdown signalled_env = None"
    by (simp_all add: signalled_env_def)
  show ?thesis
    by (simp add: main_def t p l n d o)
qed

theorem C1_shutdown_witness:
  "LoggerProviderShutdown \<in> set (main signalled_env)
 \<and> provider_shutdowns (main signalled_env)
      = [LoggerProviderShutdown, MeterProviderShutdown, TracerProviderShutdown]"
proof -
  have "LoggerProviderShutdown \<in> set (main signalled_env)"
    by (simp add: main_signalled_env)
  then show ?thesis
    using C1_shutdown_reverse_of_init [of signalled_env] by simp
qed

text \<open>
  The run that receives its signal with nothing failing: the logger provider is shut down
  before the other two, not after them.
\<close>

theorem C1_logger_last_counterexample:
  "provider_shutdowns (main signalled_env)
      = [LoggerProviderShutdown, MeterProviderShutdown, TracerProviderShutdown]
 \<and> \<not> precedes TracerProviderShutdown LoggerProviderShutdown (main signalled_env)
 \<and> \<not> precedes MeterProviderShutdown LoggerProviderShutdown (main signalled_env)
 \<and> precedes LoggerProviderShutdown MeterProviderShutdown (main signalled_env)
 \<and> precedes LoggerProviderShutdown TracerProviderShutdown (main signalled_env)"
  by (simp add: main_signalled_env provider_shutdowns_def precedes_def)

end
